theory Spec2Isabelle
  imports Complex_Main "HOL-Library.Word"
begin

section \<open>Strided subsampling: \<open>Utils::VecExtractEveryNthElm\<close>\<close>

text \<open>
  The source (utils.h, the only member of \<open>Utils\<close> whose body is in the header):
  \<^verbatim>\<open>
  template <typename T, typename A>
  static std::vector<T> VecExtractEveryNthElm(std::vector<T, A> const& data, const int& nth)
  {
    std::vector<T> every_nth_data;
    const int len = data.size();
    for (int k = 0; k < len - nth; k += nth)
    {
      every_nth_data.push_back(data[k]);
    }
    return every_nth_data;
  }
  \<close>
  The vector is a list. An \<open>int\<close> has 32 bits: the argument \<open>nth\<close> is a 32-bit word read
  as a signed number (\<open>sint\<close>); the locals \<open>len\<close> and \<open>k\<close> are integers that every
  operation keeps within the range of an \<open>int\<close> (\<open>is_int\<close>). The stride is called
  \<open>nth'\<close> because \<open>nth\<close> is the list indexing function of HOL.
\<close>

datatype error = UndefinedBehaviour

type_synonym int32 = "32 word"

definition is_int :: "int \<Rightarrow> bool" where
  "is_int x = (- (2 ^ 31) \<le> x \<and> x < 2 ^ 31)"

text \<open>
  \<open>const int len = data.size();\<close> narrows the unsigned size to an \<open>int\<close>: the result is
  the number of the range of \<open>int\<close> that is congruent to the size modulo \<open>2^32\<close>. A
  size below \<open>2^31\<close> is kept; \<open>2^31 + 10\<close> becomes \<open>-2147483638\<close>, \<open>2^32 + 10\<close>
  becomes \<open>10\<close>.
\<close>

definition int_of_size :: "nat \<Rightarrow> int" where
  "int_of_size n = (int n + 2 ^ 31) mod 2 ^ 32 - 2 ^ 31"

text \<open>
  The loop, from the test of its condition on. The difference \<open>len - nth\<close> and the
  increment \<open>k += nth\<close> are signed operations: a result outside the range of \<open>int\<close> is
  undefined behaviour. \<open>data[k]\<close> is an unchecked read: outside \<open>0 \<le> k < data.size()\<close>
  the behaviour is undefined as well. The model reports both as an error value. The loop
  need not terminate (stride 0), so it is a partial function whose value \<open>None\<close> stands
  for "never returns".
\<close>

partial_function (option) VecExtractEveryNthElm_loop ::
  "'a list \<Rightarrow> int \<Rightarrow> int \<Rightarrow> int \<Rightarrow> 'a list \<Rightarrow> (error + 'a list) option" where
  "VecExtractEveryNthElm_loop data len nth' k every_nth_data =
     (if \<not> is_int (len - nth') then Some (Inl UndefinedBehaviour)
      else if k < len - nth' then
        (if 0 \<le> k \<and> k < int (length data)
         then (if is_int (k + nth')
               then VecExtractEveryNthElm_loop data len nth' (k + nth')
                      (every_nth_data @ [data ! nat k])
               else Some (Inl UndefinedBehaviour))
         else Some (Inl UndefinedBehaviour))
      else Some (Inr every_nth_data))"

declare VecExtractEveryNthElm_loop.simps [code]

definition VecExtractEveryNthElm :: "'a list \<Rightarrow> int32 \<Rightarrow> (error + 'a list) option" where
  "VecExtractEveryNthElm data nth' =
     (let len = int_of_size (length data)
      in VecExtractEveryNthElm_loop data len (sint nth') 0 [])"

section \<open>The buffer record: \<open>BufferEntryType\<close>\<close>

text \<open>
  Modelled from the spec: the enumeration \<open>BufferMetadataType\<close> is declared in
  buffer_entry_type.h, which is not available. The spec names its five tags; their
  integer values are not known, so every definition that needs them takes the conversion
  from tag to \<open>int\<close> as the parameter \<open>to_int\<close>.
\<close>

datatype BufferMetadataType =
  core_state | sensor_state | init_state | measurement | measurement_ooo

text \<open>
  The members of the class, as buffer_entry_type.cpp uses them. A name may not end in an
  underscore in HOL, so \<open>timestamp_\<close> is written \<open>timestamp_'\<close>, and so on. The classes
  \<open>Time\<close>, \<open>BufferDataType\<close> and \<open>SensorAbsClass\<close> are not available: they are
  the type parameters \<open>'t\<close>, \<open>'d\<close> and \<open>'s\<close>. The two filters are \<open>std::set<int>\<close>.
\<close>

record ('t, 'd, 's) BufferEntryType =
  timestamp_' :: 't
  data_' :: 'd
  sensor_' :: 's
  metadata_' :: int
  metadata_state_filter_' :: "int set"
  metadata_measurement_filter_' :: "int set"

text \<open>
  \<^verbatim>\<open>
  BufferEntryType::BufferEntryType(const Time& timestamp, BufferDataType data,
                                   std::shared_ptr<SensorAbsClass> sensor, const int& metadata)
    : timestamp_(timestamp), data_(std::move(data)), sensor_(move(sensor)), metadata_(metadata)
  {
    metadata_state_filter_ = std::set<int>(
        { BufferMetadataType::core_state, BufferMetadataType::sensor_state,
          BufferMetadataType::init_state });
    metadata_measurement_filter_ =
        std::set<int>({ BufferMetadataType::measurement, BufferMetadataType::measurement_ooo });
  }
  \<close>
\<close>

definition BufferEntryType ::
  "(BufferMetadataType \<Rightarrow> int) \<Rightarrow> 't \<Rightarrow> 'd \<Rightarrow> 's \<Rightarrow> int \<Rightarrow> ('t, 'd, 's) BufferEntryType" where
  "BufferEntryType to_int timestamp data sensor metadata =
     \<lparr> timestamp_' = timestamp, data_' = data, sensor_' = sensor, metadata_' = metadata,
       metadata_state_filter_' = {to_int core_state, to_int sensor_state, to_int init_state},
       metadata_measurement_filter_' = {to_int measurement, to_int measurement_ooo} \<rparr>"

text \<open>
  The four comparison operators. Each compares the two \<open>timestamp_\<close> members with the
  operator of the same name of \<open>Time\<close>. Modelled from the spec: \<open>Time\<close> (mars/time.h, not
  available) is "a totally ordered scalar time value", a type of class \<open>linorder\<close>.
\<close>

definition operator_less ::
  "('t::linorder, 'd, 's) BufferEntryType \<Rightarrow> ('t, 'd, 's) BufferEntryType \<Rightarrow> bool" where
  "operator_less lhs rhs = (timestamp_' lhs < timestamp_' rhs)"

definition operator_less_eq ::
  "('t::linorder, 'd, 's) BufferEntryType \<Rightarrow> ('t, 'd, 's) BufferEntryType \<Rightarrow> bool" where
  "operator_less_eq lhs rhs = (timestamp_' lhs \<le> timestamp_' rhs)"

definition operator_greater ::
  "('t::linorder, 'd, 's) BufferEntryType \<Rightarrow> ('t, 'd, 's) BufferEntryType \<Rightarrow> bool" where
  "operator_greater lhs rhs = (timestamp_' lhs > timestamp_' rhs)"

definition operator_greater_eq ::
  "('t::linorder, 'd, 's) BufferEntryType \<Rightarrow> ('t, 'd, 's) BufferEntryType \<Rightarrow> bool" where
  "operator_greater_eq lhs rhs = (timestamp_' lhs \<ge> timestamp_' rhs)"

text \<open>
  \<^verbatim>\<open>
  bool BufferEntryType::IsState() const
  { return (metadata_state_filter_.find(metadata_) != metadata_state_filter_.end()); }
  bool BufferEntryType::IsMeasurement() const
  { return (metadata_measurement_filter_.find(metadata_) != metadata_measurement_filter_.end()); }
  \<close>
  \<open>find\<close> differs from \<open>end()\<close> exactly when the key is a member of the set.
\<close>

definition IsState :: "('t, 'd, 's) BufferEntryType \<Rightarrow> bool" where
  "IsState e = (metadata_' e \<in> metadata_state_filter_' e)"

definition IsMeasurement :: "('t, 'd, 's) BufferEntryType \<Rightarrow> bool" where
  "IsMeasurement e = (metadata_' e \<in> metadata_measurement_filter_' e)"

section \<open>Vectors and the position payload\<close>

text \<open>
  \<open>Eigen::Vector3d\<close>: three coefficients \<open>v(0)\<close>, \<open>v(1)\<close>, \<open>v(2)\<close>. The coefficients are
  real numbers here, where the program has IEEE doubles.
\<close>

datatype Vector3d = Vector3d real real real

text \<open>
  \<^verbatim>\<open>
  class PositionMeasurementType : public BaseMeas
  {
  public:
    Eigen::Vector3d position_;  ///< Position [x y z]
    PositionMeasurementType(Eigen::Vector3d position) : position_(std::move(position)) {}
  };
  \<close>
  \<open>BaseMeas\<close> (measurement_base_class.h) is not available. The constructor names
  no base initialiser, so the base subobject is default-constructed: its state is the
  parameter \<open>base\<close> of the constructor's model, of an arbitrary type \<open>'b\<close>.
\<close>

record 'b PositionMeasurementType =
  base_meas :: 'b
  position_' :: Vector3d

definition PositionMeasurementType :: "'b \<Rightarrow> Vector3d \<Rightarrow> 'b PositionMeasurementType" where
  "PositionMeasurementType base position = \<lparr> base_meas = base, position_' = position \<rparr>"

section \<open>Rotation kernels whose bodies are not available\<close>

text \<open>
  utils.h only declares \<open>Skew\<close> and \<open>EnforceMatrixSymmetry\<close>; utils.cpp, which defines
  them, is not available. Their models follow the spec, over real numbers.
  \<open>Eigen::Matrix3d\<close> is three rows of three coefficients; the operations of Eigen that
  the properties use (transpose, unary minus, matrix times vector, cross product) are
  written out coefficient by coefficient.
\<close>

datatype Matrix3d = Matrix3d Vector3d Vector3d Vector3d

fun transpose3 :: "Matrix3d \<Rightarrow> Matrix3d" where
  "transpose3 (Matrix3d (Vector3d a00 a01 a02) (Vector3d a10 a11 a12) (Vector3d a20 a21 a22)) =
     Matrix3d (Vector3d a00 a10 a20) (Vector3d a01 a11 a21) (Vector3d a02 a12 a22)"

fun uminus_vec3 :: "Vector3d \<Rightarrow> Vector3d" where
  "uminus_vec3 (Vector3d a0 a1 a2) = Vector3d (- a0) (- a1) (- a2)"

fun uminus_mat3 :: "Matrix3d \<Rightarrow> Matrix3d" where
  "uminus_mat3 (Matrix3d r0 r1 r2) = Matrix3d (uminus_vec3 r0) (uminus_vec3 r1) (uminus_vec3 r2)"

fun dot :: "Vector3d \<Rightarrow> Vector3d \<Rightarrow> real" where
  "dot (Vector3d a0 a1 a2) (Vector3d b0 b1 b2) = a0 * b0 + a1 * b1 + a2 * b2"

fun mat3_times_vec :: "Matrix3d \<Rightarrow> Vector3d \<Rightarrow> Vector3d" where
  "mat3_times_vec (Matrix3d r0 r1 r2) w = Vector3d (dot r0 w) (dot r1 w) (dot r2 w)"

fun cross :: "Vector3d \<Rightarrow> Vector3d \<Rightarrow> Vector3d" where
  "cross (Vector3d a0 a1 a2) (Vector3d b0 b1 b2) =
     Vector3d (a1 * b2 - a2 * b1) (a2 * b0 - a0 * b2) (a0 * b1 - a1 * b0)"

text \<open>
  Modelled from the spec: the body of \<open>Utils::Skew\<close> (utils.cpp) is missing. The spec:
  "Returns the 3x3 antisymmetric matrix S such that S w = v x w for all w". The matrix
  with that property has the rows \<open>(0, -v2, v1)\<close>, \<open>(v2, 0, -v0)\<close>, \<open>(-v1, v0, 0)\<close>.
\<close>

fun Skew :: "Vector3d \<Rightarrow> Matrix3d" where
  "Skew (Vector3d v0 v1 v2) =
     Matrix3d (Vector3d 0 (- v2) v1)
              (Vector3d v2 0 (- v0))
              (Vector3d (- v1) v0 0)"

text \<open>
  \<open>Eigen::MatrixXd\<close>, a matrix whose size is known at run time: the list of its rows.
  \<open>is_matrix r c M\<close> says that \<open>M\<close> has \<open>r\<close> rows of \<open>c\<close> coefficients each. Eigen
  requires equal sizes of the operands of a sum (an assertion in debug builds); the
  properties below are about square matrices, where the sizes agree.
\<close>

type_synonym MatrixXd = "real list list"

definition rows :: "MatrixXd \<Rightarrow> nat" where
  "rows M = length M"

definition cols :: "MatrixXd \<Rightarrow> nat" where
  "cols M = (case M of [] \<Rightarrow> 0 | r # _ \<Rightarrow> length r)"

definition is_matrix :: "nat \<Rightarrow> nat \<Rightarrow> MatrixXd \<Rightarrow> bool" where
  "is_matrix r c M = (length M = r \<and> list_all (\<lambda>row. length row = c) M)"

definition mat_transpose :: "MatrixXd \<Rightarrow> MatrixXd" where
  "mat_transpose M = map (\<lambda>j. map (\<lambda>i. M ! i ! j) [0..<rows M]) [0..<cols M]"

definition mat_add :: "MatrixXd \<Rightarrow> MatrixXd \<Rightarrow> MatrixXd" where
  "mat_add A B = map2 (map2 (+)) A B"

definition mat_div :: "MatrixXd \<Rightarrow> real \<Rightarrow> MatrixXd" where
  "mat_div M c = map (map (\<lambda>x. x / c)) M"

text \<open>
  Modelled from the spec: the body of \<open>Utils::EnforceMatrixSymmetry\<close> (utils.cpp) is
  missing. The spec: "Returns (M + M^T) / 2".
\<close>

definition EnforceMatrixSymmetry :: "MatrixXd \<Rightarrow> MatrixXd" where
  "EnforceMatrixSymmetry mat_in = mat_div (mat_add mat_in (mat_transpose mat_in)) 2"

section \<open>Properties of \<open>VecExtractEveryNthElm\<close>\<close>

text \<open>The narrowing keeps a size below \<open>2^31\<close>, never exceeds the size, and yields an \<open>int\<close>.\<close>

lemma int_of_size_small: "n < 2 ^ 31 \<Longrightarrow> int_of_size n = int n"
  by (simp add: int_of_size_def)

lemma int_of_size_le: "int_of_size n \<le> int n"
proof -
  have "(int n + 2 ^ 31) mod 2 ^ 32 \<le> int n + 2 ^ 31"
    by (rule zmod_le_nonneg_dividend) simp
  then show ?thesis by (simp add: int_of_size_def)
qed

lemma int_of_size_is_int: "is_int (int_of_size n)"
proof -
  have "0 \<le> (int n + 2 ^ 31) mod 2 ^ 32" "(int n + 2 ^ 31) mod 2 ^ 32 < 2 ^ 32"
    by simp_all
  then show ?thesis by (simp add: is_int_def int_of_size_def)
qed

lemma sint32_bounds: "- (2 ^ 31) \<le> sint (w :: int32)" "sint (w :: int32) < 2 ^ 31"
  using sint_ge[of w] sint_lt[of w] by simp_all

text \<open>Between two multiples of the stride no index is selected.\<close>

lemma filter_dvd_gap:
  assumes "0 < n" "n dvd k"
  shows "filter (\<lambda>i. n dvd i) [Suc k..<min (k + n) L] = []"
proof -
  have "\<not> n dvd i" if "Suc k \<le> i" "i < k + n" for i
  proof
    assume "n dvd i"
    with assms(2) have "n dvd (i - k)" by (simp add: dvd_diff_nat)
    moreover have "0 < i - k" "i - k < n" using that by auto
    ultimately show False by (simp add: dvd_imp_le leD)
  qed
  then show ?thesis by (auto simp: filter_empty_conv)
qed

lemma filter_dvd_upt_step:
  assumes "0 < n" "n dvd k" "k < L"
  shows "filter (\<lambda>i. n dvd i) [k..<L] = k # filter (\<lambda>i. n dvd i) [k + n..<L]"
proof -
  have split: "[Suc k..<L] = [Suc k..<min (k + n) L] @ [min (k + n) L..<L]"
  proof -
    have "Suc k \<le> min (k + n) L" using assms by simp
    from upt_add_eq_append[OF this, of "L - min (k + n) L"] show ?thesis by simp
  qed
  have tail: "[min (k + n) L..<L] = [k + n..<L]"
    by (cases "k + n \<le> L") (simp_all add: min_def)
  have "[k..<L] = k # [Suc k..<L]" using assms(3) by (simp add: upt_conv_Cons)
  then show ?thesis
    using assms(2) filter_dvd_gap[OF assms(1,2), of L] by (simp add: split tail)
qed

text \<open>
  The loop, started at a multiple \<open>k\<close> of a stride of at least 1 with \<open>acc\<close> collected
  so far, returns when \<open>len - nth\<close> is an \<open>int\<close> and \<open>len\<close> does not exceed the size:
  it appends the elements at the multiples of the stride from \<open>k\<close> on that are below
  \<open>len - nth\<close>. No read is out of range and no increment overflows. Induction on the
  distance to that bound.
\<close>

lemma VecExtractEveryNthElm_loop_closed:
  assumes "1 \<le> nth'" "n = nat nth'" "is_int (len - nth')" "len \<le> int (length data)"
    "len < 2 ^ 31" "n dvd k"
  shows "VecExtractEveryNthElm_loop data len nth' (int k) acc =
           Some (Inr (acc @ map ((!) data) (filter (\<lambda>i. n dvd i) [k..<nat (len - nth')])))"
  using assms(6)
proof (induction "nat (len - nth') - k" arbitrary: k acc rule: less_induct)
  case less
  have n_pos: "0 < n" and nth_eq: "nth' = int n" using assms(1,2) by simp_all
  show ?case
  proof (cases "k < nat (len - nth')")
    case True
    then have guard: "int k < len - nth'" by linarith
    then have inb: "int k < int (length data)" using assms(1,4) by linarith
    have "0 \<le> int k + nth'" "int k + nth' < 2 ^ 31"
      using guard assms(1,5) by linarith+
    then have next_ok: "is_int (int k + nth')" by (simp add: is_int_def)
    have dec: "nat (len - nth') - (k + n) < nat (len - nth') - k"
      using True n_pos by linarith
    have dvd': "n dvd k + n" using less.prems by simp
    have step: "VecExtractEveryNthElm_loop data len nth' (int k) acc =
                VecExtractEveryNthElm_loop data len nth' (int (k + n)) (acc @ [data ! k])"
      using guard inb next_ok assms(3)
      by (subst VecExtractEveryNthElm_loop.simps) (simp add: nth_eq)
    show ?thesis
      unfolding step less.hyps[OF dec dvd']
      using filter_dvd_upt_step[OF n_pos less.prems True] by simp
  next
    case False
    then have "\<not> int k < len - nth'" by linarith
    then show ?thesis
      using False assms(3) by (subst VecExtractEveryNthElm_loop.simps) simp
  qed
qed

text \<open>
  The function for a stride of at least 1, whatever the size of the vector: undefined
  behaviour when \<open>len - nth\<close> overflows, and otherwise the elements at the multiples of the
  stride below \<open>len - nth\<close>, for the narrowed \<open>len\<close>.
\<close>

lemma VecExtractEveryNthElm_closed:
  fixes nth' :: int32
  assumes "1 \<le> sint nth'" "is_int (int_of_size (length data) - sint nth')"
  shows "VecExtractEveryNthElm data nth' =
           Some (Inr (map ((!) data) (filter (\<lambda>i. nat (sint nth') dvd i)
                   [0..<nat (int_of_size (length data) - sint nth')])))"
proof -
  have lt: "int_of_size (length data) < 2 ^ 31"
    using int_of_size_is_int[of "length data"] by (simp add: is_int_def)
  show ?thesis
    using VecExtractEveryNthElm_loop_closed[OF assms(1) refl assms(2) int_of_size_le lt, of 0 "[]"]
    by (simp add: VecExtractEveryNthElm_def)
qed


lemma VecExtractEveryNthElm_closed_small:
  fixes nth' :: int32
  assumes "1 \<le> sint nth'" "length data < 2 ^ 31"
  shows "VecExtractEveryNthElm data nth' =
           Some (Inr (map ((!) data) (filter (\<lambda>i. nat (sint nth') dvd i)
                   [0..<length data - nat (sint nth')])))"
proof -
  have len: "int_of_size (length data) = int (length data)"
    by (rule int_of_size_small[OF assms(2)])
  have "sint nth' < 2 ^ 31" by (rule sint32_bounds)
  then have ok: "is_int (int_of_size (length data) - sint nth')"
    using assms by (simp add: len is_int_def)
  have L: "nat (int (length data) - sint nth') = length data - nat (sint nth')"
    using assms(1) by linarith
  show ?thesis
    using VecExtractEveryNthElm_closed[OF assms(1) ok] by (simp add: len L)
qed



text \<open>
  What the hypothesis of a stride of at least 1 excludes, on vectors whose size fits an
  \<open>int\<close>. With stride 0 the loop never advances: on a non-empty vector it never returns
  (the value \<open>None\<close>), on the empty vector it does not start. With a negative stride the
  bound \<open>len - nth\<close> is positive or overflows; the loop reads \<open>data[0]\<close> and then, the
  index having become negative, reads out of range (on the empty vector the first read
  already is).
\<close>

lemma VecExtractEveryNthElm_loop_zero_stride:
  assumes "VecExtractEveryNthElm_loop data len nth' k acc = Some r"
  shows "\<not> (nth' = 0 \<and> is_int len \<and> 0 \<le> k \<and> k < len \<and> k < int (length data))"
proof (rule VecExtractEveryNthElm_loop.raw_induct[
      where P = "\<lambda>data len nth' k acc r.
        \<not> (nth' = 0 \<and> is_int len \<and> 0 \<le> k \<and> k < len \<and> k < int (length data))",
      OF _ assms])
  fix f :: "'a list \<Rightarrow> int \<Rightarrow> int \<Rightarrow> int \<Rightarrow> 'a list \<Rightarrow> (error + 'a list) option"
  fix data len nth' k acc r
  assume IH: "\<And>data len nth' k acc y. f data len nth' k acc = Some y \<Longrightarrow>
                \<not> (nth' = 0 \<and> is_int len \<and> 0 \<le> k \<and> k < len \<and> k < int (length data))"
    and eq: "(if \<not> is_int (len - nth') then Some (Inl UndefinedBehaviour)
              else if k < len - nth' then
                (if 0 \<le> k \<and> k < int (length data)
                 then (if is_int (k + nth')
                       then f data len nth' (k + nth') (acc @ [data ! nat k])
                       else Some (Inl UndefinedBehaviour))
                 else Some (Inl UndefinedBehaviour))
              else Some (Inr acc)) = Some r"
  show "\<not> (nth' = 0 \<and> is_int len \<and> 0 \<le> k \<and> k < len \<and> k < int (length data))"
  proof
    assume a: "nth' = 0 \<and> is_int len \<and> 0 \<le> k \<and> k < len \<and> k < int (length data)"
    then have "is_int k" by (simp add: is_int_def)
    with a eq have "f data len nth' (k + nth') (acc @ [data ! nat k]) = Some r"
      by simp
    from IH[OF this] a show False by simp
  qed
qed

lemma VecExtractEveryNthElm_zero_stride:
  assumes "length data < 2 ^ 31"
  shows "VecExtractEveryNthElm data 0 = (if data = [] then Some (Inr []) else None)"
proof (cases "data = []")
  case True
  then show ?thesis
    by (simp add: VecExtractEveryNthElm_def VecExtractEveryNthElm_loop.simps
        int_of_size_def is_int_def)
next
  case False
  have len: "int_of_size (length data) = int (length data)"
    by (rule int_of_size_small[OF assms])
  have "VecExtractEveryNthElm_loop data (int (length data)) 0 0 [] = None"
  proof (cases "VecExtractEveryNthElm_loop data (int (length data)) 0 0 []")
    case (Some r)
    from VecExtractEveryNthElm_loop_zero_stride[OF this] False assms
    show ?thesis by (simp add: is_int_def)
  qed simp
  then show ?thesis using False by (simp add: VecExtractEveryNthElm_def len)
qed

lemma VecExtractEveryNthElm_negative_stride:
  fixes nth' :: int32
  assumes "sint nth' < 0" "length data < 2 ^ 31"
  shows "VecExtractEveryNthElm data nth' = Some (Inl UndefinedBehaviour)"
proof -
  have len: "int_of_size (length data) = int (length data)"
    by (rule int_of_size_small[OF assms(2)])
  have lo: "- (2 ^ 31) \<le> sint nth'" by (rule sint32_bounds)
  show ?thesis
  proof (cases "is_int (int (length data) - sint nth') \<and> data \<noteq> []")
    case False
    then show ?thesis using assms
      by (auto simp: VecExtractEveryNthElm_def len VecExtractEveryNthElm_loop.simps)
  next
    case True
    have "is_int (sint nth')" using lo assms(1) by (simp add: is_int_def)
    then have "VecExtractEveryNthElm_loop data (int (length data)) (sint nth') 0 [] =
          VecExtractEveryNthElm_loop data (int (length data)) (sint nth') (sint nth') [data ! 0]"
      using assms True by (subst VecExtractEveryNthElm_loop.simps) simp
    also have "\<dots> = Some (Inl UndefinedBehaviour)"
      using assms True by (subst VecExtractEveryNthElm_loop.simps) simp
    finally show ?thesis by (simp add: VecExtractEveryNthElm_def len)
  qed
qed

text \<open>
  C1, as amended. For every vector \<open>data\<close> of fewer than \<open>2^31\<close> elements and every
  stride of at least 1, the function returns (it neither runs forever nor reads out of
  range nor overflows), and its result is exactly the elements of \<open>data\<close> at the indices
  \<open>0, nth, 2 nth, ...\<close> that are strictly below \<open>length data - nth\<close>, in that order
  (\<open>idx\<close> is the list of these indices). No index of the last \<open>nth\<close> positions is among
  them; where the elements of \<open>data\<close> are pairwise different, no element of that tail
  window occurs in the result. On a vector of 10 elements with stride 3 the result is the
  elements at the indices 0, 3 and 6.
\<close>

theorem VecExtractEveryNthElm_every_nth:
  fixes nth' :: int32
  assumes "1 \<le> sint nth'" "length data < 2 ^ 31"
  shows "\<exists>r idx. VecExtractEveryNthElm data nth' = Some (Inr r)
           \<and> r = map ((!) data) idx
           \<and> idx = filter (\<lambda>i. nat (sint nth') dvd i) [0..<length data - nat (sint nth')]
           \<and> (\<forall>i. length data - nat (sint nth') \<le> i \<longrightarrow> i \<notin> set idx)
           \<and> (length data = 10 \<and> nth' = 3 \<longrightarrow> r = [data ! 0, data ! 3, data ! 6])
           \<and> (distinct data \<longrightarrow>
                 (\<forall>i. length data - nat (sint nth') \<le> i \<and> i < length data \<longrightarrow> data ! i \<notin> set r))"
proof -
  let ?n = "nat (sint nth')"
  let ?idx = "filter (\<lambda>i. ?n dvd i) [0..<length data - ?n]"
  let ?r = "map ((!) data) ?idx"
  have run: "VecExtractEveryNthElm data nth' = Some (Inr ?r)"
    by (rule VecExtractEveryNthElm_closed_small[OF assms])
  have three: "filter (\<lambda>i. (3::nat) dvd i) [0..<7] = [0, 3, 6]"
    by code_simp
  have ten: "?r = [data ! 0, data ! 3, data ! 6]" if "length data = 10 \<and> nth' = 3"
    using that by (simp add: three)
  have pos: "i \<notin> set ?idx" if "length data - ?n \<le> i" for i
    using that by simp
  have tail: "data ! i \<notin> set ?r"
    if d: "distinct data" and i: "length data - ?n \<le> i \<and> i < length data" for i
  proof
    assume "data ! i \<in> set ?r"
    then obtain j where j: "j < length data - ?n" "data ! j = data ! i" by auto
    then have "j = i" using d i by (simp add: nth_eq_iff_index_eq)
    then show False using j i by simp
  qed
  show ?thesis
  proof (intro exI[of _ ?r] exI[of _ ?idx] conjI impI allI)
    show "VecExtractEveryNthElm data nth' = Some (Inr ?r)" by (rule run)
    show "?r = ?r" by (rule refl)
    show "?idx = ?idx" by (rule refl)
    show "i \<notin> set ?idx" if "length data - ?n \<le> i" for i
      using that by (rule pos)
    show "?r = [data ! 0, data ! 3, data ! 6]" if "length data = 10 \<and> nth' = 3"
      using that by (rule ten)
    show "data ! i \<notin> set ?r"
      if "distinct data" "length data - ?n \<le> i \<and> i < length data" for i
      using that by (rule tail)
  qed
qed

theorem VecExtractEveryNthElm_every_nth_witness:
  "(1::int) \<le> sint (3 :: int32) \<and>
   length [10, 11, 12, 13, 14, 15, 16, 17, 18, 19 :: int] < 2 ^ 31 \<and>
   VecExtractEveryNthElm [10, 11, 12, 13, 14, 15, 16, 17, 18, 19 :: int] 3 = Some (Inr [10, 13, 16]) \<and>
   distinct [10, 11, 12, 13, 14, 15, 16, 17, 18, 19 :: int] \<and>
   (17::int) \<notin> set [10, 13, 16]"
  using VecExtractEveryNthElm_every_nth[of 3 "[10, 11, 12, 13, 14, 15, 16, 17, 18, 19 :: int]"]
  by simp

text \<open>
  C1 as stated, for every vector, fails where the size does not fit an \<open>int\<close>. On a
  vector of \<open>2^32 + 10 = 4294967306\<close> elements \<open>len\<close> is 10, so with stride 3 the function
  returns the three elements at the indices 0, 3 and 6, while the multiples of 3 below
  \<open>length data - 3\<close> are more than three (9 is one of them). And read by value, not by
  position, its last part fails on a vector with a repeated element: of \<open>[5, 5]\<close> with
  stride 1 the result is \<open>[5]\<close>, and 5 is also the element of the tail window.
\<close>

theorem VecExtractEveryNthElm_every_nth_counterexample:
  "VecExtractEveryNthElm (replicate 4294967306 (0::int)) 3 = Some (Inr [0, 0, 0])
 \<and> map ((!) (replicate 4294967306 (0::int)))
       (filter (\<lambda>i. nat (sint (3 :: int32)) dvd i)
          [0..<length (replicate 4294967306 (0::int)) - nat (sint (3 :: int32))])
     \<noteq> [0, 0, 0]
 \<and> VecExtractEveryNthElm [5, 5 :: int] 1 = Some (Inr [5])
 \<and> [5, 5 :: int] ! 1 \<in> set [5]"
proof (intro conjI)
  show "VecExtractEveryNthElm [5, 5 :: int] 1 = Some (Inr [5])"
    using VecExtractEveryNthElm_closed_small[of 1 "[5, 5 :: int]"] by simp
  show "[5, 5 :: int] ! 1 \<in> set [5]"
    by simp
next
  let ?data = "replicate 4294967306 (0::int)"
  have len: "int_of_size 4294967306 = 10"
    by (simp add: int_of_size_def)
  have ok: "is_int (int_of_size (length ?data) - sint (3 :: int32))"
    by (simp add: len is_int_def)
  have three: "filter (\<lambda>i. (3::nat) dvd i) [0..<7] = [0, 3, 6]"
    by code_simp
  have "VecExtractEveryNthElm ?data 3 = Some (Inr (map ((!) ?data) [0, 3, 6]))"
    using VecExtractEveryNthElm_closed[of 3 ?data, OF _ ok] by (simp add: len three)
  then show "VecExtractEveryNthElm ?data 3 = Some (Inr [0, 0, 0])"
    by simp
  have "{0, 3, 6, 9} \<subseteq> set (filter (\<lambda>i. (3::nat) dvd i) [0..<4294967303])"
    by simp
  then have "card {0, 3, 6, 9 :: nat} \<le> card (set (filter (\<lambda>i. (3::nat) dvd i) [0..<4294967303]))"
    by (intro card_mono) simp_all
  also have "\<dots> \<le> length (filter (\<lambda>i. (3::nat) dvd i) [0..<4294967303])"
    by (rule card_length)
  finally have long: "4 \<le> length (filter (\<lambda>i. (3::nat) dvd i) [0..<4294967303])"
    by simp
  have idx: "[0..<length ?data - nat (sint (3 :: int32))] = [0..<4294967303]"
    by simp
  show "map ((!) ?data) (filter (\<lambda>i. nat (sint (3 :: int32)) dvd i)
          [0..<length ?data - nat (sint (3 :: int32))]) \<noteq> [0, 0, 0]"
  proof
    assume "map ((!) ?data) (filter (\<lambda>i. nat (sint (3 :: int32)) dvd i)
          [0..<length ?data - nat (sint (3 :: int32))]) = [0, 0, 0]"
    then have "length (map ((!) ?data) (filter (\<lambda>i. nat (sint (3 :: int32)) dvd i)
          [0..<length ?data - nat (sint (3 :: int32))])) = length [0, 0, 0 :: int]"
      by (rule arg_cong)
    then have "length (filter (\<lambda>i. (3::nat) dvd i) [0..<4294967303]) = 3"
      unfolding idx by (simp del: length_filter_conv_card)
    with long show False by simp
  qed
qed





section \<open>Properties of \<open>BufferEntryType\<close>\<close>

text \<open>
  C2. An entry constructed with the metadata tag \<open>m\<close> is a state exactly when \<open>m\<close> is
  one of \<open>core_state\<close>, \<open>sensor_state\<close>, \<open>init_state\<close>, and a measurement exactly when
  \<open>m\<close> is one of \<open>measurement\<close>, \<open>measurement_ooo\<close>; when \<open>m\<close> is the value of none of
  the five tags, it is neither. This holds whatever integer values the tags have.
\<close>

theorem BufferEntryType_classification:
  "(IsState (BufferEntryType to_int timestamp data sensor m) \<longleftrightarrow>
      m \<in> {to_int core_state, to_int sensor_state, to_int init_state})
 \<and> (IsMeasurement (BufferEntryType to_int timestamp data sensor m) \<longleftrightarrow>
      m \<in> {to_int measurement, to_int measurement_ooo})
 \<and> (m \<notin> range to_int \<longrightarrow>
      \<not> IsState (BufferEntryType to_int timestamp data sensor m)
    \<and> \<not> IsMeasurement (BufferEntryType to_int timestamp data sensor m))"
proof (intro conjI impI)
  show st: "IsState (BufferEntryType to_int timestamp data sensor m) \<longleftrightarrow>
      m \<in> {to_int core_state, to_int sensor_state, to_int init_state}"
    by (simp add: IsState_def BufferEntryType_def)
  show me: "IsMeasurement (BufferEntryType to_int timestamp data sensor m) \<longleftrightarrow>
      m \<in> {to_int measurement, to_int measurement_ooo}"
    by (simp add: IsMeasurement_def BufferEntryType_def)
  assume "m \<notin> range to_int"
  then have no_tag: "m \<noteq> to_int t" for t by blast
  show "\<not> IsState (BufferEntryType to_int timestamp data sensor m)"
    unfolding st using no_tag by simp
  show "\<not> IsMeasurement (BufferEntryType to_int timestamp data sensor m)"
    unfolding me using no_tag by simp
qed

theorem BufferEntryType_classification_witness:
  "(99::int) \<notin> range (\<lambda>t. case t of core_state \<Rightarrow> 0 | sensor_state \<Rightarrow> 1 | init_state \<Rightarrow> 2
                                   | measurement \<Rightarrow> 3 | measurement_ooo \<Rightarrow> 4)
 \<and> \<not> IsState (BufferEntryType
        (\<lambda>t. case t of core_state \<Rightarrow> 0 | sensor_state \<Rightarrow> 1 | init_state \<Rightarrow> 2
                      | measurement \<Rightarrow> 3 | measurement_ooo \<Rightarrow> 4) (1::real) () () 99)
 \<and> \<not> IsMeasurement (BufferEntryType
        (\<lambda>t. case t of core_state \<Rightarrow> 0 | sensor_state \<Rightarrow> 1 | init_state \<Rightarrow> 2
                      | measurement \<Rightarrow> 3 | measurement_ooo \<Rightarrow> 4) (1::real) () () 99)
 \<and> IsState (BufferEntryType
        (\<lambda>t. case t of core_state \<Rightarrow> 0 | sensor_state \<Rightarrow> 1 | init_state \<Rightarrow> 2
                      | measurement \<Rightarrow> 3 | measurement_ooo \<Rightarrow> 4) (1::real) () () 1)
 \<and> \<not> IsMeasurement (BufferEntryType
        (\<lambda>t. case t of core_state \<Rightarrow> 0 | sensor_state \<Rightarrow> 1 | init_state \<Rightarrow> 2
                      | measurement \<Rightarrow> 3 | measurement_ooo \<Rightarrow> 4) (1::real) () () 1)
 \<and> IsMeasurement (BufferEntryType
        (\<lambda>t. case t of core_state \<Rightarrow> 0 | sensor_state \<Rightarrow> 1 | init_state \<Rightarrow> 2
                      | measurement \<Rightarrow> 3 | measurement_ooo \<Rightarrow> 4) (1::real) () () 4)"
proof -
  let ?f = "\<lambda>t. case t of core_state \<Rightarrow> (0::int) | sensor_state \<Rightarrow> 1 | init_state \<Rightarrow> 2
                        | measurement \<Rightarrow> 3 | measurement_ooo \<Rightarrow> 4"
  have out: "(99::int) \<notin> range ?f"
    by (auto split: BufferMetadataType.splits)
  show ?thesis
    using out
      BufferEntryType_classification[of ?f "1::real" "()" "()" 99]
      BufferEntryType_classification[of ?f "1::real" "()" "()" 1]
      BufferEntryType_classification[of ?f "1::real" "()" "()" 4]
    by simp
qed

text \<open>
  C3. Each of the four comparisons of two entries is the comparison of their timestamps:
  \<open>e1 < e2\<close> holds exactly when \<open>timestamp e1 < timestamp e2\<close>, and likewise for \<open><=\<close>,
  \<open>>\<close> and \<open>>=\<close>. So two pairs of entries with the same timestamps compare alike,
  whatever their metadata, payload and sensor (the entries \<open>e1'\<close>, \<open>e2'\<close> may even carry
  payloads and sensors of other types). With equal timestamps neither \<open><\<close> nor \<open>>\<close>
  holds, and both \<open><=\<close> and \<open>>=\<close> hold.
\<close>

theorem BufferEntryType_ordering:
  fixes e1 e2 :: "('t::linorder, 'd, 's) BufferEntryType"
    and e1' e2' :: "('t, 'd2, 's2) BufferEntryType"
  shows "(operator_less e1 e2 \<longleftrightarrow> timestamp_' e1 < timestamp_' e2)
       \<and> (operator_less_eq e1 e2 \<longleftrightarrow> timestamp_' e1 \<le> timestamp_' e2)
       \<and> (operator_greater e1 e2 \<longleftrightarrow> timestamp_' e1 > timestamp_' e2)
       \<and> (operator_greater_eq e1 e2 \<longleftrightarrow> timestamp_' e1 \<ge> timestamp_' e2)
       \<and> (timestamp_' e1' = timestamp_' e1 \<and> timestamp_' e2' = timestamp_' e2 \<longrightarrow>
            operator_less e1' e2' = operator_less e1 e2
          \<and> operator_less_eq e1' e2' = operator_less_eq e1 e2
          \<and> operator_greater e1' e2' = operator_greater e1 e2
          \<and> operator_greater_eq e1' e2' = operator_greater_eq e1 e2)
       \<and> (timestamp_' e1 = timestamp_' e2 \<longrightarrow>
            \<not> operator_less e1 e2 \<and> \<not> operator_greater e1 e2
          \<and> operator_less_eq e1 e2 \<and> operator_greater_eq e1 e2)"
  by (simp add: operator_less_def operator_less_eq_def operator_greater_def
      operator_greater_eq_def)

theorem BufferEntryType_ordering_witness:
  "timestamp_' (BufferEntryType (\<lambda>t. 0) (1::real) True () 7)
     = timestamp_' (BufferEntryType (\<lambda>t. 0) (1::real) () False 3)
 \<and> timestamp_' (BufferEntryType (\<lambda>t. 0) (1::real) () False 3)
     = timestamp_' (BufferEntryType (\<lambda>t. 0) (1::real) () False 5)
 \<and> \<not> operator_less (BufferEntryType (\<lambda>t. 0) (1::real) () False 3)
                     (BufferEntryType (\<lambda>t. 0) (1::real) () False 5)
 \<and> \<not> operator_greater (BufferEntryType (\<lambda>t. 0) (1::real) () False 3)
                        (BufferEntryType (\<lambda>t. 0) (1::real) () False 5)
 \<and> operator_less_eq (BufferEntryType (\<lambda>t. 0) (1::real) () False 3)
                    (BufferEntryType (\<lambda>t. 0) (1::real) () False 5)
 \<and> operator_greater_eq (BufferEntryType (\<lambda>t. 0) (1::real) () False 3)
                       (BufferEntryType (\<lambda>t. 0) (1::real) () False 5)
 \<and> operator_less_eq (BufferEntryType (\<lambda>t. 0) (1::real) True () 7)
                    (BufferEntryType (\<lambda>t. 0) (1::real) True () 9)
 \<and> operator_less (BufferEntryType (\<lambda>t. 0) (1::real) () False 3)
                 (BufferEntryType (\<lambda>t. 0) (2::real) () False 3)"
  using
    BufferEntryType_ordering[of
      "BufferEntryType (\<lambda>t. 0) (1::real) () False 3"
      "BufferEntryType (\<lambda>t. 0) (1::real) () False 5"
      "BufferEntryType (\<lambda>t. 0) (1::real) True () 7"
      "BufferEntryType (\<lambda>t. 0) (1::real) True () 9"]
    BufferEntryType_ordering[of
      "BufferEntryType (\<lambda>t. 0) (1::real) () False 3"
      "BufferEntryType (\<lambda>t. 0) (2::real) () False 3"
      "BufferEntryType (\<lambda>t. 0) (1::real) () False 3"
      "BufferEntryType (\<lambda>t. 0) (2::real) () False 3"]
  by (simp add: BufferEntryType_def)

section \<open>Properties of \<open>PositionMeasurementType\<close>\<close>

text \<open>
  C10. The constructor stores the vector it is given: the member \<open>position_\<close> of the
  constructed object is the argument. The rest of the object, the default-constructed base
  subobject, is what it is for every argument: the object has no other member.
\<close>

theorem PositionMeasurementType_stores_position:
  "position_' (PositionMeasurementType base position) = position
 \<and> base_meas (PositionMeasurementType base position) = base
 \<and> PositionMeasurementType base position = \<lparr> base_meas = base, position_' = position \<rparr>"
  by (simp add: PositionMeasurementType_def)

theorem PositionMeasurementType_stores_position_witness:
  "position_' (PositionMeasurementType () (Vector3d 1 2 3)) = Vector3d 1 2 3
 \<and> base_meas (PositionMeasurementType () (Vector3d 1 2 3)) = ()"
  using PositionMeasurementType_stores_position[of "()" "Vector3d 1 2 3"]
  by simp

section \<open>Properties of \<open>Skew\<close>\<close>

text \<open>
  C7. For every 3-vector \<open>v\<close>, \<open>Skew v\<close> is the negation of its transpose, and for
  every 3-vector \<open>w\<close> the product of \<open>Skew v\<close> with \<open>w\<close> is the cross product of \<open>v\<close>
  and \<open>w\<close>.
\<close>

theorem Skew_antisymmetric_cross:
  "Skew v = uminus_mat3 (transpose3 (Skew v)) \<and> mat3_times_vec (Skew v) w = cross v w"
  by (cases v; cases w) simp

theorem Skew_antisymmetric_cross_witness:
  "Skew (Vector3d 1 2 3) = Matrix3d (Vector3d 0 (- 3) 2) (Vector3d 3 0 (- 1)) (Vector3d (- 2) 1 0)
 \<and> uminus_mat3 (transpose3 (Skew (Vector3d 1 2 3))) =
     Matrix3d (Vector3d 0 (- 3) 2) (Vector3d 3 0 (- 1)) (Vector3d (- 2) 1 0)
 \<and> mat3_times_vec (Skew (Vector3d 1 2 3)) (Vector3d 4 5 6) = Vector3d (- 3) 6 (- 3)
 \<and> cross (Vector3d 1 2 3) (Vector3d 4 5 6) = Vector3d (- 3) 6 (- 3)"
  using Skew_antisymmetric_cross[of "Vector3d 1 2 3" "Vector3d 4 5 6"]
  by simp

section \<open>Properties of \<open>EnforceMatrixSymmetry\<close>\<close>

lemma is_matrix_iff:
  "is_matrix r c M \<longleftrightarrow> length M = r \<and> (\<forall>i<r. length (M ! i) = c)"
  by (auto simp: is_matrix_def list_all_length)

lemma is_matrix_cols: "is_matrix n n M \<Longrightarrow> cols M = n"
  by (cases M) (auto simp: is_matrix_def cols_def)

text \<open>Two matrices of the same size with the same coefficients are equal.\<close>

lemma mat_eqI:
  assumes "is_matrix r c A" "is_matrix r c B"
    and "\<And>i j. i < r \<Longrightarrow> j < c \<Longrightarrow> A ! i ! j = B ! i ! j"
  shows "A = B"
proof (rule nth_equalityI)
  show "length A = length B" using assms(1,2) by (simp add: is_matrix_iff)
next
  fix i assume "i < length A"
  then have i: "i < r" using assms(1) by (simp add: is_matrix_iff)
  show "A ! i = B ! i"
  proof (rule nth_equalityI)
    show "length (A ! i) = length (B ! i)" using assms(1,2) i by (simp add: is_matrix_iff)
  next
    fix j assume "j < length (A ! i)"
    then have "j < c" using assms(1) i by (simp add: is_matrix_iff)
    then show "A ! i ! j = B ! i ! j" using i by (rule assms(3)[rotated])
  qed
qed

lemma transpose_square:
  assumes "is_matrix n n M"
  shows "is_matrix n n (mat_transpose M)"
    and "i < n \<Longrightarrow> j < n \<Longrightarrow> mat_transpose M ! i ! j = M ! j ! i"
  using assms is_matrix_cols[OF assms]
  by (simp_all add: mat_transpose_def rows_def is_matrix_iff)

lemma add_square:
  assumes "is_matrix n n A" "is_matrix n n B"
  shows "is_matrix n n (mat_add A B)"
    and "i < n \<Longrightarrow> j < n \<Longrightarrow> mat_add A B ! i ! j = A ! i ! j + B ! i ! j"
  using assms by (simp_all add: mat_add_def is_matrix_iff)

lemma div_square:
  assumes "is_matrix n n A"
  shows "is_matrix n n (mat_div A c)"
    and "i < n \<Longrightarrow> j < n \<Longrightarrow> mat_div A c ! i ! j = A ! i ! j / c"
  using assms by (simp_all add: mat_div_def is_matrix_iff)

lemma EnforceMatrixSymmetry_square:
  assumes "is_matrix n n M"
  shows "is_matrix n n (EnforceMatrixSymmetry M)"
    and "i < n \<Longrightarrow> j < n \<Longrightarrow> EnforceMatrixSymmetry M ! i ! j = (M ! i ! j + M ! j ! i) / 2"
proof -
  have T: "is_matrix n n (mat_transpose M)"
    by (rule transpose_square(1)[OF assms])
  have A: "is_matrix n n (mat_add M (mat_transpose M))"
    by (rule add_square(1)[OF assms T])
  show "is_matrix n n (EnforceMatrixSymmetry M)"
    unfolding EnforceMatrixSymmetry_def by (rule div_square(1)[OF A])
  show "EnforceMatrixSymmetry M ! i ! j = (M ! i ! j + M ! j ! i) / 2" if "i < n" "j < n"
    unfolding EnforceMatrixSymmetry_def
    using div_square(2)[OF A that] add_square(2)[OF assms T that]
      transpose_square(2)[OF assms that]
    by simp
qed

text \<open>
  C6. For every real square matrix \<open>M\<close> (\<open>n\<close> rows of \<open>n\<close> coefficients),
  \<open>EnforceMatrixSymmetry M\<close> is \<open>(M + M^T) / 2\<close>: a square matrix of the same size whose
  coefficient at \<open>(i, j)\<close> is \<open>(M(i,j) + M(j,i)) / 2\<close>. The operation is idempotent, and it
  leaves a matrix that equals its transpose unchanged.
\<close>

theorem EnforceMatrixSymmetry_idempotent:
  assumes "is_matrix n n M"
  shows "EnforceMatrixSymmetry M = mat_div (mat_add M (mat_transpose M)) 2
       \<and> is_matrix n n (EnforceMatrixSymmetry M)
       \<and> (\<forall>i<n. \<forall>j<n. EnforceMatrixSymmetry M ! i ! j = (M ! i ! j + M ! j ! i) / 2)
       \<and> EnforceMatrixSymmetry (EnforceMatrixSymmetry M) = EnforceMatrixSymmetry M
       \<and> (mat_transpose M = M \<longrightarrow> EnforceMatrixSymmetry M = M)"
proof (intro conjI impI allI)
  let ?S = "EnforceMatrixSymmetry M"
  show "?S = mat_div (mat_add M (mat_transpose M)) 2"
    by (simp add: EnforceMatrixSymmetry_def)
  show sq: "is_matrix n n ?S"
    by (rule EnforceMatrixSymmetry_square(1)[OF assms])
  show "?S ! i ! j = (M ! i ! j + M ! j ! i) / 2" if "i < n" "j < n" for i j
    using that by (rule EnforceMatrixSymmetry_square(2)[OF assms])
  show "EnforceMatrixSymmetry ?S = ?S"
  proof (rule mat_eqI[OF EnforceMatrixSymmetry_square(1)[OF sq] sq])
    fix i j assume ij: "i < n" "j < n"
    have a: "EnforceMatrixSymmetry ?S ! i ! j = (?S ! i ! j + ?S ! j ! i) / 2"
      by (rule EnforceMatrixSymmetry_square(2)[OF sq ij])
    have b: "?S ! i ! j = (M ! i ! j + M ! j ! i) / 2"
      by (rule EnforceMatrixSymmetry_square(2)[OF assms ij])
    have c: "?S ! j ! i = (M ! j ! i + M ! i ! j) / 2"
      by (rule EnforceMatrixSymmetry_square(2)[OF assms ij(2) ij(1)])
    show "EnforceMatrixSymmetry ?S ! i ! j = ?S ! i ! j"
      unfolding a unfolding b c by (simp add: field_simps)
  qed
  show "?S = M" if sym: "mat_transpose M = M"
  proof (rule mat_eqI[OF sq assms])
    fix i j assume ij: "i < n" "j < n"
    have "M ! j ! i = M ! i ! j"
      using transpose_square(2)[OF assms ij] sym by simp
    then show "?S ! i ! j = M ! i ! j"
      using EnforceMatrixSymmetry_square(2)[OF assms ij] by simp
  qed
qed

theorem EnforceMatrixSymmetry_idempotent_witness:
  "is_matrix 2 2 [[1, 2], [3, 4]]
   \<and> EnforceMatrixSymmetry [[1, 2], [3, 4]] = [[1, 5 / 2], [5 / 2, 4]]
   \<and> EnforceMatrixSymmetry (EnforceMatrixSymmetry [[1, 2], [3, 4]]) = [[1, 5 / 2], [5 / 2, 4]]
   \<and> is_matrix 2 2 [[1, 5 / 2], [5 / 2, 4]]
   \<and> mat_transpose [[1, 5 / 2], [5 / 2, 4]] = [[1, 5 / 2], [5 / 2, 4]]
   \<and> EnforceMatrixSymmetry [[1, 5 / 2], [5 / 2, 4]] = [[1, 5 / 2], [5 / 2, 4]]"
proof -
  have m: "is_matrix 2 2 [[1, 2], [3, 4]]"
    by (simp add: is_matrix_def)
  have s: "EnforceMatrixSymmetry [[1, 2], [3, 4]] = [[1, 5 / 2], [5 / 2, 4]]"
    by (simp add: EnforceMatrixSymmetry_def mat_div_def mat_add_def mat_transpose_def
        rows_def cols_def upt_rec)
  have t: "mat_transpose [[1, 5 / 2], [5 / 2, 4]] = [[1, 5 / 2], [5 / 2, 4]]"
    by (simp add: mat_transpose_def rows_def cols_def upt_rec)
  have m': "is_matrix 2 2 [[1, 5 / 2], [5 / 2, 4]]"
    by (simp add: is_matrix_def)
  from EnforceMatrixSymmetry_idempotent[OF m]
  have idem: "EnforceMatrixSymmetry (EnforceMatrixSymmetry [[1, 2], [3, 4]]) =
      EnforceMatrixSymmetry [[1, 2], [3, 4]]"
    by (elim conjE)
  from EnforceMatrixSymmetry_idempotent[OF m'] t
  have fixed: "EnforceMatrixSymmetry [[1, 5 / 2], [5 / 2, 4]] = [[1, 5 / 2], [5 / 2, 4]]"
    by (elim conjE impE)
  show ?thesis
    using m s t m' idem fixed by simp
qed

end
